theory Spec2Isabelle
  imports Complex_Main "HOL-Library.Word"
begin

section \<open>Data model\<close>

text \<open>
  The washer controller exists in the repository in several copies of \<^verbatim>\<open>washer.c\<close>.
  Two of them carry the decision logic examined here:
  \<^item> \<^verbatim>\<open>src/washer.c\<close>: the fill phase is gated by a tick counter read with
    \<^verbatim>\<open>HAL_GetTick()\<close> and compared with the function's static \<^verbatim>\<open>lastTime\<close>;
  \<^item> the copy that reads the ADC temperature (with \<^verbatim>\<open>Read_Temperature\<close>) and selects
    the valves from it; its functions carry the suffix \<open>_temp\<close> below.

  \<^verbatim>\<open>WasherState\<close> is a C enum. \<^verbatim>\<open>Washer_Update\<close> switches on it and has a
  \<^verbatim>\<open>default\<close> branch for values that are none of its enumerators, so the field is
  modelled as the integer it is stored as. The enumerators are numbered in the order in
  which the header comment of \<^verbatim>\<open>src/washer.c\<close> lists them (the only
  \<^verbatim>\<open>washer.h\<close> among the sources still has \<^verbatim>\<open>DONE\<close> in the place of
  \<^verbatim>\<open>ERROR\<close>).
\<close>

type_synonym WasherState = int

definition IDLE :: WasherState where "IDLE = 0"
definition FILL_WATER :: WasherState where "FILL_WATER = 1"
definition WASH :: WasherState where "WASH = 2"
definition RINSE :: WasherState where "RINSE = 3"
definition SPIN :: WasherState where "SPIN = 4"
definition ERROR :: WasherState where "ERROR = 5"

text \<open>
  Modelled from the spec: the declaration of the motor direction enum is not among the
  sources; the spec gives it as \<open>enum {Forward, Reverse}\<close>.
\<close>

datatype Direction = FORWARD | REVERSE

text \<open>
  The fields are those the three functions assign: \<^verbatim>\<open>state\<close>, \<^verbatim>\<open>programIndex\<close>,
  \<^verbatim>\<open>stepIndex\<close>, \<^verbatim>\<open>timer\<close> and \<^verbatim>\<open>direction\<close>. \<^verbatim>\<open>programIndex\<close> is a C
  \<^verbatim>\<open>int\<close>; it is only ever incremented below 29 and decremented above 0, so the
  arithmetic never leaves the range of a machine integer and \<^typ>\<open>int\<close> is exact.
\<close>

record WasherControl =
  state :: WasherState
  programIndex :: int
  stepIndex :: int
  timer :: int
  direction :: Direction

text \<open>
  Modelled from the spec: the macros \<^verbatim>\<open>BUTTON_START\<close>, \<^verbatim>\<open>BUTTON_STOP\<close>,
  \<^verbatim>\<open>BUTTON_UP\<close> and \<^verbatim>\<open>BUTTON_DOWN\<close> are not defined among the sources; the spec
  names four distinct logical button events. The parameter of
  \<^verbatim>\<open>Washer_HandleButtonPress\<close> is an \<^verbatim>\<open>int\<close>, so any other value is possible too.
\<close>

datatype Button = BUTTON_START | BUTTON_STOP | BUTTON_UP | BUTTON_DOWN | BUTTON_OTHER int

text \<open>
  The output lines. \<^verbatim>\<open>src/washer.c\<close> names the valves \<^verbatim>\<open>WATER_HOT_PIN\<close> and
  \<^verbatim>\<open>WATER_COLD_PIN\<close>; the temperature copy names them \<^verbatim>\<open>HOT_WATER_PIN\<close> and
  \<^verbatim>\<open>COLD_WATER_PIN\<close>. The pin numbers are placeholders in the sources, so each name
  stands for one line and the port argument of \<^verbatim>\<open>HAL_GPIO_WritePin\<close> is left out; a
  mask \<^verbatim>\<open>A | B\<close> is the list of its pins.
\<close>

datatype pin =
    MOTOR_FORWARD_PIN | MOTOR_REVERSE_PIN
  | WATER_HOT_PIN | WATER_COLD_PIN
  | HOT_WATER_PIN | COLD_WATER_PIN

datatype GPIO_PinState = GPIO_PIN_RESET | GPIO_PIN_SET

text \<open>
  What the controller reads (\<^verbatim>\<open>HAL_GetTick()\<close>, \<^verbatim>\<open>Read_Temperature()\<close>) is a
  parameter of the model. What it writes, to the output lines and to the display, is
  returned as the list of the calls it makes, in the order it makes them.
\<close>

datatype event =
    HAL_GPIO_WritePin "pin list" GPIO_PinState
  | Display_UpdateWasherState WasherState int
  | Display_ShowSelectedProgram int
  | Display_UpdateTime

text \<open>
  The level of every output line after a sequence of calls: \<^verbatim>\<open>HAL_GPIO_WritePin\<close> drives
  the pins of its mask and leaves the others as they are; the display calls drive none.
\<close>

fun drive :: "event \<Rightarrow> (pin \<Rightarrow> GPIO_PinState) \<Rightarrow> (pin \<Rightarrow> GPIO_PinState)" where
  "drive (HAL_GPIO_WritePin pins level) out = (\<lambda>p. if p \<in> set pins then level else out p)"
| "drive (Display_UpdateWasherState s i) out = out"
| "drive (Display_ShowSelectedProgram i) out = out"
| "drive Display_UpdateTime out = out"

definition outputs_after :: "event list \<Rightarrow> (pin \<Rightarrow> GPIO_PinState) \<Rightarrow> (pin \<Rightarrow> GPIO_PinState)" where
  "outputs_after evs out = fold drive evs out"

text \<open>The status notifications \<open>(state, program index)\<close> among a sequence of calls.\<close>

fun notifications :: "event list \<Rightarrow> (WasherState \<times> int) list" where
  "notifications [] = []"
| "notifications (Display_UpdateWasherState s i # evs) = (s, i) # notifications evs"
| "notifications (HAL_GPIO_WritePin pins level # evs) = notifications evs"
| "notifications (Display_ShowSelectedProgram i # evs) = notifications evs"
| "notifications (Display_UpdateTime # evs) = notifications evs"

text \<open>The program-display notifications among a sequence of calls.\<close>

fun program_notifications :: "event list \<Rightarrow> int list" where
  "program_notifications [] = []"
| "program_notifications (Display_ShowSelectedProgram i # evs) = i # program_notifications evs"
| "program_notifications (HAL_GPIO_WritePin pins level # evs) = program_notifications evs"
| "program_notifications (Display_UpdateWasherState s i # evs) = program_notifications evs"
| "program_notifications (Display_UpdateTime # evs) = program_notifications evs"

section \<open>The controller of \<^verbatim>\<open>src/washer.c\<close>\<close>

definition Washer_Init :: "WasherControl \<Rightarrow> WasherControl \<times> event list" where
  "Washer_Init washer =
     (let w = washer\<lparr>state := IDLE, programIndex := 0, stepIndex := 0, timer := 0,
                     direction := FORWARD\<rparr>
      in (w, [Display_UpdateWasherState (state w) (programIndex w)]))"

text \<open>
  \<^verbatim>\<open>Washer_Update\<close> keeps \<^verbatim>\<open>static uint32_t lastTime = 0\<close> between calls and reads
  \<^verbatim>\<open>currentTime = HAL_GetTick()\<close>: the model takes both and returns the structure, the
  new \<^verbatim>\<open>lastTime\<close> and the calls made. The subtraction is that of \<^verbatim>\<open>uint32_t\<close>.
\<close>

definition Washer_Update ::
    "WasherControl \<Rightarrow> 32 word \<Rightarrow> 32 word \<Rightarrow> WasherControl \<times> 32 word \<times> event list" where
  "Washer_Update washer lastTime currentTime =
     (if state washer = IDLE then
        (washer, lastTime,
         [HAL_GPIO_WritePin [MOTOR_FORWARD_PIN, MOTOR_REVERSE_PIN] GPIO_PIN_RESET,
          HAL_GPIO_WritePin [WATER_HOT_PIN, WATER_COLD_PIN] GPIO_PIN_RESET])
      else if state washer = FILL_WATER then
        (if currentTime - lastTime \<ge> 10000 then
           (washer\<lparr>state := WASH\<rparr>, currentTime,
            [Display_UpdateWasherState FILL_WATER (programIndex washer),
             HAL_GPIO_WritePin [WATER_HOT_PIN] GPIO_PIN_SET,
             HAL_GPIO_WritePin [WATER_COLD_PIN] GPIO_PIN_SET,
             HAL_GPIO_WritePin [WATER_HOT_PIN, WATER_COLD_PIN] GPIO_PIN_RESET])
         else
           (washer, lastTime,
            [Display_UpdateWasherState FILL_WATER (programIndex washer),
             HAL_GPIO_WritePin [WATER_HOT_PIN] GPIO_PIN_SET,
             HAL_GPIO_WritePin [WATER_COLD_PIN] GPIO_PIN_SET]))
      else if state washer = WASH then
        (washer\<lparr>state := RINSE\<rparr>, lastTime,
         [Display_UpdateWasherState WASH (programIndex washer)])
      else if state washer = RINSE then
        (washer\<lparr>state := SPIN\<rparr>, lastTime,
         [Display_UpdateWasherState RINSE (programIndex washer)])
      else if state washer = SPIN then
        (washer\<lparr>state := IDLE\<rparr>, lastTime,
         [Display_UpdateWasherState SPIN (programIndex washer),
          HAL_GPIO_WritePin [MOTOR_FORWARD_PIN] GPIO_PIN_SET,
          HAL_GPIO_WritePin [MOTOR_REVERSE_PIN] GPIO_PIN_RESET])
      else if state washer = ERROR then
        (washer, lastTime,
         [Display_UpdateWasherState ERROR (programIndex washer),
          HAL_GPIO_WritePin [MOTOR_FORWARD_PIN, MOTOR_REVERSE_PIN] GPIO_PIN_RESET,
          HAL_GPIO_WritePin [WATER_HOT_PIN, WATER_COLD_PIN] GPIO_PIN_RESET])
      else
        (washer\<lparr>state := ERROR\<rparr>, lastTime, []))"

definition Washer_HandleButtonPress :: "WasherControl \<Rightarrow> Button \<Rightarrow> WasherControl \<times> event list" where
  "Washer_HandleButtonPress washer button =
     (if button = BUTTON_START \<and> state washer = IDLE then
        (washer\<lparr>state := FILL_WATER\<rparr>,
         [Display_UpdateWasherState FILL_WATER (programIndex washer)])
      else if button = BUTTON_STOP then
        (washer\<lparr>state := IDLE\<rparr>,
         [Display_UpdateWasherState IDLE (programIndex washer)])
      else if button = BUTTON_UP \<and> state washer = IDLE then
        (if programIndex washer < 29 then
           (washer\<lparr>programIndex := programIndex washer + 1\<rparr>,
            [Display_ShowSelectedProgram (programIndex washer + 1)])
         else (washer, []))
      else if button = BUTTON_DOWN \<and> state washer = IDLE then
        (if programIndex washer > 0 then
           (washer\<lparr>programIndex := programIndex washer - 1\<rparr>,
            [Display_ShowSelectedProgram (programIndex washer - 1)])
         else (washer, []))
      else (washer, []))"

section \<open>The controller that reads the temperature\<close>

text \<open>
  \<^verbatim>\<open>Washer_Update\<close> of this copy starts with \<^verbatim>\<open>float temperature = Read_Temperature()\<close>
  and compares it with the constants \<^verbatim>\<open>25.0\<close> and \<^verbatim>\<open>35.0\<close>. The sample is a parameter
  of the model. C converts the \<^verbatim>\<open>float\<close> to \<^verbatim>\<open>double\<close> without rounding before it
  compares, and both constants are exact, so on the finite values that
  \<^verbatim>\<open>Read_Temperature\<close> returns the comparisons are those of the real numbers.
\<close>

definition Washer_Init_temp :: "WasherControl \<Rightarrow> WasherControl \<times> event list" where
  "Washer_Init_temp washer =
     (let w = washer\<lparr>state := IDLE, programIndex := 0, stepIndex := 0, timer := 0,
                     direction := FORWARD\<rparr>
      in (w, [Display_UpdateWasherState (state w) (programIndex w), Display_UpdateTime]))"

definition Washer_Update_temp :: "WasherControl \<Rightarrow> real \<Rightarrow> WasherControl \<times> event list" where
  "Washer_Update_temp washer temperature =
     (if state washer = IDLE then
        (washer, [Display_UpdateTime])
      else if state washer = FILL_WATER then
        (washer\<lparr>state := WASH\<rparr>,
         [Display_UpdateWasherState FILL_WATER (programIndex washer)] @
         (if temperature < 25.0 then
            [HAL_GPIO_WritePin [HOT_WATER_PIN] GPIO_PIN_SET,
             HAL_GPIO_WritePin [COLD_WATER_PIN] GPIO_PIN_RESET]
          else if temperature > 35.0 then
            [HAL_GPIO_WritePin [HOT_WATER_PIN] GPIO_PIN_RESET,
             HAL_GPIO_WritePin [COLD_WATER_PIN] GPIO_PIN_SET]
          else
            [HAL_GPIO_WritePin [HOT_WATER_PIN] GPIO_PIN_SET,
             HAL_GPIO_WritePin [COLD_WATER_PIN] GPIO_PIN_SET]) @
         [Display_UpdateTime])
      else if state washer = WASH then
        (washer\<lparr>state := RINSE\<rparr>,
         [Display_UpdateWasherState WASH (programIndex washer), Display_UpdateTime])
      else if state washer = RINSE then
        (washer\<lparr>state := SPIN\<rparr>,
         [Display_UpdateWasherState RINSE (programIndex washer), Display_UpdateTime])
      else if state washer = SPIN then
        (washer\<lparr>state := IDLE\<rparr>,
         [Display_UpdateWasherState SPIN (programIndex washer), Display_UpdateTime])
      else if state washer = ERROR then
        (washer, [Display_UpdateWasherState ERROR (programIndex washer), Display_UpdateTime])
      else
        (washer, [Display_UpdateWasherState ERROR (programIndex washer), Display_UpdateTime]))"

definition Washer_HandleButtonPress_temp ::
    "WasherControl \<Rightarrow> Button \<Rightarrow> WasherControl \<times> event list" where
  "Washer_HandleButtonPress_temp washer button =
     (if button = BUTTON_START \<and> state washer = IDLE then
        (washer\<lparr>state := FILL_WATER\<rparr>,
         [Display_UpdateWasherState FILL_WATER (programIndex washer), Display_UpdateTime])
      else if button = BUTTON_STOP then
        (washer\<lparr>state := IDLE\<rparr>,
         [Display_UpdateWasherState IDLE (programIndex washer), Display_UpdateTime])
      else if button = BUTTON_UP \<and> state washer = IDLE then
        (if programIndex washer < 29 then
           (washer\<lparr>programIndex := programIndex washer + 1\<rparr>,
            [Display_ShowSelectedProgram (programIndex washer + 1), Display_UpdateTime])
         else (washer, [Display_UpdateTime]))
      else if button = BUTTON_DOWN \<and> state washer = IDLE then
        (if programIndex washer > 0 then
           (washer\<lparr>programIndex := programIndex washer - 1\<rparr>,
            [Display_ShowSelectedProgram (programIndex washer - 1), Display_UpdateTime])
         else (washer, [Display_UpdateTime]))
      else (washer, [Display_UpdateTime]))"

section \<open>Running the controller\<close>

text \<open>
  A run of \<^verbatim>\<open>src/washer.c\<close> is a sequence of calls on one structure: a button
  press, or an update at the tick that \<^verbatim>\<open>HAL_GetTick()\<close> returns then. The state
  between calls is the structure and the static \<^verbatim>\<open>lastTime\<close>, which only
  \<^verbatim>\<open>Washer_Update\<close> can reach.
\<close>

datatype call = Press Button | Tick "32 word"

fun step :: "call \<Rightarrow> WasherControl \<times> 32 word \<Rightarrow> WasherControl \<times> 32 word" where
  "step (Press button) (washer, lastTime) =
     (fst (Washer_HandleButtonPress washer button), lastTime)"
| "step (Tick currentTime) (washer, lastTime) =
     (fst (Washer_Update washer lastTime currentTime),
      fst (snd (Washer_Update washer lastTime currentTime)))"

definition run :: "call list \<Rightarrow> WasherControl \<times> 32 word \<Rightarrow> WasherControl \<times> 32 word" where
  "run calls s = fold step calls s"

text \<open>The calls that an update makes from a state of the run.\<close>

definition update_events :: "32 word \<Rightarrow> WasherControl \<times> 32 word \<Rightarrow> event list" where
  "update_events currentTime s = snd (snd (Washer_Update (fst s) (snd s) currentTime))"

text \<open>System start: \<^verbatim>\<open>Washer_Init\<close> on the structure, \<^verbatim>\<open>lastTime\<close> still 0.\<close>

definition boot :: "WasherControl \<Rightarrow> WasherControl \<times> 32 word" where
  "boot washer = (fst (Washer_Init washer), 0)"

text \<open>\<open>n\<close> updates in a row that all read the same tick.\<close>

primrec repeat_update ::
    "nat \<Rightarrow> 32 word \<Rightarrow> WasherControl \<times> 32 word \<Rightarrow> WasherControl \<times> 32 word" where
  "repeat_update 0 currentTime s = s"
| "repeat_update (Suc n) currentTime s = repeat_update n currentTime (step (Tick currentTime) s)"

text \<open>The same for the controller that reads the temperature; it keeps no tick.\<close>

datatype call_temp = Press_temp Button | Sample real

fun step_temp :: "call_temp \<Rightarrow> WasherControl \<Rightarrow> WasherControl" where
  "step_temp (Press_temp button) washer = fst (Washer_HandleButtonPress_temp washer button)"
| "step_temp (Sample temperature) washer = fst (Washer_Update_temp washer temperature)"

definition run_temp :: "call_temp list \<Rightarrow> WasherControl \<Rightarrow> WasherControl" where
  "run_temp calls washer = fold step_temp calls washer"

section \<open>Observations\<close>

text \<open>The state values that have a \<^verbatim>\<open>case\<close> of their own in \<^verbatim>\<open>Washer_Update\<close>.\<close>

definition recognised :: "WasherState \<Rightarrow> bool" where
  "recognised s = (s = IDLE \<or> s = FILL_WATER \<or> s = WASH \<or> s = RINSE \<or> s = SPIN \<or> s = ERROR)"

text \<open>All four output lines of \<^verbatim>\<open>src/washer.c\<close> are low.\<close>

definition all_off :: "(pin \<Rightarrow> GPIO_PinState) \<Rightarrow> bool" where
  "all_off out =
     (out MOTOR_FORWARD_PIN = GPIO_PIN_RESET \<and> out MOTOR_REVERSE_PIN = GPIO_PIN_RESET \<and>
      out WATER_HOT_PIN = GPIO_PIN_RESET \<and> out WATER_COLD_PIN = GPIO_PIN_RESET)"

section \<open>Concrete inputs\<close>

text \<open>The global of \<^verbatim>\<open>main.c\<close>, \<^verbatim>\<open>WasherControl washer = {IDLE, 0, 0, 0, 0}\<close>.\<close>

definition washer_global :: WasherControl where
  "washer_global =
     \<lparr>state = IDLE, programIndex = 0, stepIndex = 0, timer = 0, direction = FORWARD\<rparr>"

definition washer_idle_top :: WasherControl where
  "washer_idle_top =
     \<lparr>state = IDLE, programIndex = 29, stepIndex = 0, timer = 0, direction = FORWARD\<rparr>"

definition washer_fill :: WasherControl where
  "washer_fill =
     \<lparr>state = FILL_WATER, programIndex = 5, stepIndex = 0, timer = 0, direction = FORWARD\<rparr>"

definition washer_wash :: WasherControl where
  "washer_wash =
     \<lparr>state = WASH, programIndex = 5, stepIndex = 0, timer = 0, direction = FORWARD\<rparr>"

definition washer_spin :: WasherControl where
  "washer_spin =
     \<lparr>state = SPIN, programIndex = 7, stepIndex = 0, timer = 0, direction = FORWARD\<rparr>"

definition washer_error :: WasherControl where
  "washer_error =
     \<lparr>state = ERROR, programIndex = 5, stepIndex = 0, timer = 0, direction = FORWARD\<rparr>"

text \<open>A structure whose state field holds 7, which is no enumerator.\<close>

definition washer_corrupt :: WasherControl where
  "washer_corrupt =
     \<lparr>state = 7, programIndex = 5, stepIndex = 0, timer = 0, direction = FORWARD\<rparr>"

text \<open>Output levels before a call: every line high, every line low.\<close>

definition all_set :: "pin \<Rightarrow> GPIO_PinState" where
  "all_set p = GPIO_PIN_SET"

definition all_reset :: "pin \<Rightarrow> GPIO_PinState" where
  "all_reset p = GPIO_PIN_RESET"

section \<open>Basic facts\<close>

lemmas WasherState_defs = IDLE_def FILL_WATER_def WASH_def RINSE_def SPIN_def ERROR_def

lemma programIndex_HandleButtonPress:
  "programIndex (fst (Washer_HandleButtonPress w b)) =
     (if b = BUTTON_UP \<and> state w = IDLE \<and> programIndex w < 29 then programIndex w + 1
      else if b = BUTTON_DOWN \<and> state w = IDLE \<and> 0 < programIndex w then programIndex w - 1
      else programIndex w)"
  by (simp add: Washer_HandleButtonPress_def)

lemma programIndex_HandleButtonPress_temp:
  "programIndex (fst (Washer_HandleButtonPress_temp w b)) =
     programIndex (fst (Washer_HandleButtonPress w b))"
  by (simp add: Washer_HandleButtonPress_def Washer_HandleButtonPress_temp_def)

lemma programIndex_Update: "programIndex (fst (Washer_Update w lt now)) = programIndex w"
  by (simp add: Washer_Update_def)

lemma programIndex_Update_temp: "programIndex (fst (Washer_Update_temp w t)) = programIndex w"
  by (simp add: Washer_Update_temp_def)

lemma programIndex_Init:
  "programIndex (fst (Washer_Init w)) = 0" "programIndex (fst (Washer_Init_temp w)) = 0"
  by (simp_all add: Washer_Init_def Washer_Init_temp_def)

text \<open>The range of the program index is kept by every call, whatever the tick.\<close>

lemma step_keeps_range:
  assumes "0 \<le> programIndex (fst s) \<and> programIndex (fst s) \<le> 29"
  shows "0 \<le> programIndex (fst (step c s)) \<and> programIndex (fst (step c s)) \<le> 29"
proof (cases s)
  case (Pair w lt)
  with assms show ?thesis
    by (cases c) (auto simp: programIndex_HandleButtonPress programIndex_Update)
qed

lemma run_keeps_range:
  assumes "0 \<le> programIndex (fst s) \<and> programIndex (fst s) \<le> 29"
  shows "0 \<le> programIndex (fst (run calls s)) \<and> programIndex (fst (run calls s)) \<le> 29"
  using assms unfolding run_def
proof (induction calls arbitrary: s)
  case Nil
  then show ?case by simp
next
  case (Cons c calls)
  have "0 \<le> programIndex (fst (step c s)) \<and> programIndex (fst (step c s)) \<le> 29"
    by (rule step_keeps_range [OF Cons.prems])
  from Cons.IH [OF this] show ?case by simp
qed

lemma step_temp_keeps_range:
  assumes "0 \<le> programIndex w \<and> programIndex w \<le> 29"
  shows "0 \<le> programIndex (step_temp c w) \<and> programIndex (step_temp c w) \<le> 29"
  using assms
  by (cases c)
    (auto simp: programIndex_HandleButtonPress_temp programIndex_HandleButtonPress
      programIndex_Update_temp)

lemma run_temp_keeps_range:
  assumes "0 \<le> programIndex w \<and> programIndex w \<le> 29"
  shows "0 \<le> programIndex (run_temp calls w) \<and> programIndex (run_temp calls w) \<le> 29"
  using assms unfolding run_temp_def
proof (induction calls arbitrary: w)
  case Nil
  then show ?case by simp
next
  case (Cons c calls)
  have "0 \<le> programIndex (step_temp c w) \<and> programIndex (step_temp c w) \<le> 29"
    by (rule step_temp_keeps_range [OF Cons.prems])
  from Cons.IH [OF this] show ?case by simp
qed

text \<open>
  The fill gate of \<^verbatim>\<open>src/washer.c\<close> compares the tick with \<^verbatim>\<open>lastTime\<close>, and a
  button press cannot change \<^verbatim>\<open>lastTime\<close>.
\<close>

lemma fill_gate:
  assumes "state w = FILL_WATER"
  shows "state (fst (Washer_Update w lt now)) = (if 10000 \<le> now - lt then WASH else FILL_WATER)"
  using assms by (simp add: Washer_Update_def WasherState_defs)

lemma lastTime_Press: "snd (step (Press b) s) = snd s"
  by (cases s) simp

text \<open>
  When Start is pressed at the very tick that \<^verbatim>\<open>lastTime\<close> holds (here at tick 0, right
  after system start), the gate does open 10000 ticks after the press.
\<close>

lemma fill_gate_at_boot:
  "state (fst (run [Press BUTTON_UP, Press BUTTON_UP, Press BUTTON_UP, Press BUTTON_UP,
                    Press BUTTON_UP, Press BUTTON_START, Tick 9999]
                (boot washer_global))) = FILL_WATER \<and>
   state (fst (run [Press BUTTON_UP, Press BUTTON_UP, Press BUTTON_UP, Press BUTTON_UP,
                    Press BUTTON_UP, Press BUTTON_START, Tick 9999, Tick 10000]
                (boot washer_global))) = WASH"
  by (simp add: run_def boot_def washer_global_def Washer_Init_def Washer_Update_def
      Washer_HandleButtonPress_def WasherState_defs)

text \<open>Updates at one tick leave a resting state where it is.\<close>

lemma step_Tick_resting:
  assumes "state w = IDLE \<or> state w = ERROR \<or> (state w = FILL_WATER \<and> now - lt < 10000)"
  shows "step (Tick now) (w, lt) = (w, lt)"
  using assms by (auto simp: Washer_Update_def WasherState_defs)

lemma repeat_update_resting:
  assumes "state w = IDLE \<or> state w = ERROR \<or> (state w = FILL_WATER \<and> now - lt < 10000)"
  shows "repeat_update n now (w, lt) = (w, lt)"
  by (induction n) (simp_all add: step_Tick_resting [OF assms] del: step.simps)

lemma repeat_update_Suc_settles:
  assumes "state w = SPIN \<or> \<not> recognised (state w)"
  shows "state (fst (repeat_update (Suc n) now (w, lt))) = state (fst (step (Tick now) (w, lt)))"
proof -
  obtain w' where w': "step (Tick now) (w, lt) = (w', lt)" "state w' = IDLE \<or> state w' = ERROR"
    using assms by (auto simp: Washer_Update_def recognised_def WasherState_defs)
  then have "repeat_update n now (w', lt) = (w', lt)"
    by (intro repeat_update_resting) auto
  with w' show ?thesis by (simp del: step.simps)
qed







text \<open>The state after one update of \<^verbatim>\<open>src/washer.c\<close>, case by case.\<close>

lemma state_after_update:
  "state (fst (Washer_Update w lt now)) =
     (if state w = IDLE then IDLE
      else if state w = FILL_WATER then (if 10000 \<le> now - lt then WASH else FILL_WATER)
      else if state w = WASH then RINSE
      else if state w = RINSE then SPIN
      else if state w = SPIN then IDLE
      else ERROR)"
  by (simp add: Washer_Update_def WasherState_defs)

section \<open>The claims\<close>

text \<open>
  Claim C1. Starting from Idle with program index 5, after Start has entered FillWater,
  an update 9999 ms after the phase started leaves the state FillWater and an update
  10000 ms after it moves to Wash.

  \<^verbatim>\<open>src/washer.c\<close> does not record when the phase started: it compares the tick with
  \<^verbatim>\<open>lastTime\<close>, which is 0 from system start and is set only when a fill ends. The
  run below idles until tick 60000, selects program 5 and presses Start: the structure is
  in FillWater with \<^verbatim>\<open>lastTime\<close> still 0, and the update 9999 ms later has already
  left FillWater for Wash.
\<close>

theorem C1_fill_gate_counts_from_lastTime:
  "run [Tick 60000, Press BUTTON_UP, Press BUTTON_UP, Press BUTTON_UP, Press BUTTON_UP,
        Press BUTTON_UP, Press BUTTON_START] (boot washer_global) =
     (\<lparr>state = FILL_WATER, programIndex = 5, stepIndex = 0, timer = 0,
       direction = FORWARD\<rparr>, 0) \<and>
   state (fst (run [Tick 60000, Press BUTTON_UP, Press BUTTON_UP, Press BUTTON_UP,
                    Press BUTTON_UP, Press BUTTON_UP, Press BUTTON_START,
                    Tick (60000 + 9999)] (boot washer_global))) = WASH"
  by (simp add: run_def boot_def washer_global_def Washer_Init_def Washer_Update_def
      Washer_HandleButtonPress_def WasherState_defs)

text \<open>
  Claim C2. For every sequence of button presses and updates applied to a structure
  initialised by \<^verbatim>\<open>Washer_Init\<close>, the program index stays in the range 0 to 29: Up
  increments it only below 29 (and in Idle), Down decrements it only above 0 (and in
  Idle), and nothing else changes it. This holds for both controllers.
\<close>

theorem C2_program_index_in_range:
  "0 \<le> programIndex (fst (run calls (boot w0))) \<and>
   programIndex (fst (run calls (boot w0))) \<le> 29 \<and>
   0 \<le> programIndex (run_temp calls_temp (fst (Washer_Init_temp w0))) \<and>
   programIndex (run_temp calls_temp (fst (Washer_Init_temp w0))) \<le> 29 \<and>
   programIndex (fst (Washer_HandleButtonPress w b)) =
     (if b = BUTTON_UP \<and> state w = IDLE \<and> programIndex w < 29 then programIndex w + 1
      else if b = BUTTON_DOWN \<and> state w = IDLE \<and> 0 < programIndex w then programIndex w - 1
      else programIndex w) \<and>
   programIndex (fst (Washer_HandleButtonPress_temp w b)) =
     programIndex (fst (Washer_HandleButtonPress w b)) \<and>
   programIndex (fst (Washer_Update w lastTime currentTime)) = programIndex w \<and>
   programIndex (fst (Washer_Update_temp w temperature)) = programIndex w"
proof -
  have a: "0 \<le> programIndex (fst (boot w0)) \<and> programIndex (fst (boot w0)) \<le> 29"
    by (simp add: boot_def programIndex_Init)
  have b: "0 \<le> programIndex (fst (Washer_Init_temp w0)) \<and>
           programIndex (fst (Washer_Init_temp w0)) \<le> 29"
    by (simp add: programIndex_Init)
  note run_keeps_range [OF a, of calls] run_temp_keeps_range [OF b, of calls_temp]
  moreover note programIndex_HandleButtonPress [of w b]
    programIndex_HandleButtonPress_temp [of w b]
    programIndex_Update [of w lastTime currentTime]
    programIndex_Update_temp [of w temperature]
  ultimately show ?thesis by blast
qed

text \<open>
  Claim C3. While in FillWater, the valve commands of an update are a function of the
  temperature sample \<open>t\<close> alone, with a closed mix band: below 25.0 the hot valve is
  driven on and the cold valve off; above 35.0 the hot valve off and the cold valve on;
  from 25.0 to 35.0, both bounds included, both valves on. (The controller that reads the
  temperature; whatever the structure otherwise holds and whatever the lines were before.)
\<close>

theorem C3_valves_follow_temperature:
  assumes "state w = FILL_WATER"
  shows "(t < 25 \<longrightarrow>
           outputs_after (snd (Washer_Update_temp w t)) out HOT_WATER_PIN = GPIO_PIN_SET \<and>
           outputs_after (snd (Washer_Update_temp w t)) out COLD_WATER_PIN = GPIO_PIN_RESET) \<and>
         (35 < t \<longrightarrow>
           outputs_after (snd (Washer_Update_temp w t)) out HOT_WATER_PIN = GPIO_PIN_RESET \<and>
           outputs_after (snd (Washer_Update_temp w t)) out COLD_WATER_PIN = GPIO_PIN_SET) \<and>
         (25 \<le> t \<and> t \<le> 35 \<longrightarrow>
           outputs_after (snd (Washer_Update_temp w t)) out HOT_WATER_PIN = GPIO_PIN_SET \<and>
           outputs_after (snd (Washer_Update_temp w t)) out COLD_WATER_PIN = GPIO_PIN_SET)"
proof -
  consider (hot) "t < 25" | (cold) "35 < t" | (mix) "25 \<le> t \<and> t \<le> 35"
    by linarith
  then show ?thesis
  proof cases
    case hot
    with assms show ?thesis
      by (simp add: Washer_Update_temp_def outputs_after_def WasherState_defs)
  next
    case cold
    with assms show ?thesis
      by (simp add: Washer_Update_temp_def outputs_after_def WasherState_defs)
  next
    case mix
    with assms show ?thesis
      by (simp add: Washer_Update_temp_def outputs_after_def WasherState_defs)
  qed
qed

theorem C3_valves_follow_temperature_witness:
  "state washer_fill = FILL_WATER \<and>
   (24.9 :: real) < 25 \<and>
   outputs_after (snd (Washer_Update_temp washer_fill 24.9)) all_reset HOT_WATER_PIN
     = GPIO_PIN_SET \<and>
   outputs_after (snd (Washer_Update_temp washer_fill 24.9)) all_set COLD_WATER_PIN
     = GPIO_PIN_RESET \<and>
   (25 :: real) \<le> 25.0 \<and> (25.0 :: real) \<le> 35 \<and>
   outputs_after (snd (Washer_Update_temp washer_fill 25.0)) all_reset HOT_WATER_PIN
     = GPIO_PIN_SET \<and>
   outputs_after (snd (Washer_Update_temp washer_fill 25.0)) all_reset COLD_WATER_PIN
     = GPIO_PIN_SET \<and>
   (25 :: real) \<le> 35.0 \<and> (35.0 :: real) \<le> 35 \<and>
   outputs_after (snd (Washer_Update_temp washer_fill 35.0)) all_reset HOT_WATER_PIN
     = GPIO_PIN_SET \<and>
   outputs_after (snd (Washer_Update_temp washer_fill 35.0)) all_reset COLD_WATER_PIN
     = GPIO_PIN_SET \<and>
   (35 :: real) < 35.1 \<and>
   outputs_after (snd (Washer_Update_temp washer_fill 35.1)) all_set HOT_WATER_PIN
     = GPIO_PIN_RESET \<and>
   outputs_after (snd (Washer_Update_temp washer_fill 35.1)) all_reset COLD_WATER_PIN
     = GPIO_PIN_SET"
proof -
  have f: "state washer_fill = FILL_WATER"
    by (simp add: washer_fill_def)
  show ?thesis
    using f
      C3_valves_follow_temperature [OF f, of "24.9" all_reset]
      C3_valves_follow_temperature [OF f, of "24.9" all_set]
      C3_valves_follow_temperature [OF f, of "25.0" all_reset]
      C3_valves_follow_temperature [OF f, of "35.0" all_reset]
      C3_valves_follow_temperature [OF f, of "35.1" all_set]
      C3_valves_follow_temperature [OF f, of "35.1" all_reset]
    by simp
qed

text \<open>
  Claim C4. In every state (the field may hold any value), a Stop press handled by
  \<^verbatim>\<open>Washer_HandleButtonPress\<close> sets the state to Idle; the function takes neither a
  tick nor a temperature. Stop is the only button without a precondition on the state:
  outside Idle, every other button leaves the structure as it is and notifies neither
  state nor program.
\<close>

theorem C4_stop_forces_idle:
  "state (fst (Washer_HandleButtonPress w BUTTON_STOP)) = IDLE \<and>
   state (fst (Washer_HandleButtonPress_temp w BUTTON_STOP)) = IDLE \<and>
   (b \<noteq> BUTTON_STOP \<and> state w \<noteq> IDLE \<longrightarrow>
      Washer_HandleButtonPress w b = (w, []) \<and>
      Washer_HandleButtonPress_temp w b = (w, [Display_UpdateTime]))"
  by (simp add: Washer_HandleButtonPress_def Washer_HandleButtonPress_temp_def)

theorem C4_stop_forces_idle_witness:
  "BUTTON_START \<noteq> BUTTON_STOP \<and> state washer_spin \<noteq> IDLE \<and>
   state (fst (Washer_HandleButtonPress washer_spin BUTTON_STOP)) = IDLE \<and>
   state (fst (Washer_HandleButtonPress_temp washer_spin BUTTON_STOP)) = IDLE \<and>
   Washer_HandleButtonPress washer_spin BUTTON_START = (washer_spin, []) \<and>
   Washer_HandleButtonPress_temp washer_spin BUTTON_START = (washer_spin, [Display_UpdateTime])"
  using C4_stop_forces_idle [of washer_spin BUTTON_START]
  by (simp add: washer_spin_def WasherState_defs)

text \<open>
  Claim C5. From Wash, one update moves to Rinse, a second to Spin, and a third drives
  the motor forward line on and the reverse line off and moves to Idle, whatever the
  ticks read (\<^verbatim>\<open>src/washer.c\<close>, which reads no temperature).
\<close>

theorem C5_wash_rinse_spin_idle:
  assumes "state w = WASH"
  shows "state (fst (run [Tick t1] (w, lt))) = RINSE \<and>
         state (fst (run [Tick t1, Tick t2] (w, lt))) = SPIN \<and>
         state (fst (run [Tick t1, Tick t2, Tick t3] (w, lt))) = IDLE \<and>
         outputs_after (update_events t3 (run [Tick t1, Tick t2] (w, lt))) out
           MOTOR_FORWARD_PIN = GPIO_PIN_SET \<and>
         outputs_after (update_events t3 (run [Tick t1, Tick t2] (w, lt))) out
           MOTOR_REVERSE_PIN = GPIO_PIN_RESET"
proof -
  have rinse: "run [Tick t1] (w, lt) = (w\<lparr>state := RINSE\<rparr>, lt)"
    using assms by (simp add: run_def Washer_Update_def WasherState_defs)
  have spin: "run [Tick t1, Tick t2] (w, lt) = (w\<lparr>state := SPIN\<rparr>, lt)"
    using assms by (simp add: run_def Washer_Update_def WasherState_defs)
  have idle: "run [Tick t1, Tick t2, Tick t3] (w, lt) = (w\<lparr>state := IDLE\<rparr>, lt)"
    using assms by (simp add: run_def Washer_Update_def WasherState_defs)
  have motor: "update_events t3 (w\<lparr>state := SPIN\<rparr>, lt) =
      [Display_UpdateWasherState SPIN (programIndex w),
       HAL_GPIO_WritePin [MOTOR_FORWARD_PIN] GPIO_PIN_SET,
       HAL_GPIO_WritePin [MOTOR_REVERSE_PIN] GPIO_PIN_RESET]"
    by (simp add: update_events_def Washer_Update_def WasherState_defs)
  show ?thesis
    by (simp add: rinse spin idle motor outputs_after_def)
qed

theorem C5_wash_rinse_spin_idle_witness:
  "state washer_wash = WASH \<and>
   state (fst (run [Tick 100] (washer_wash, 0))) = RINSE \<and>
   state (fst (run [Tick 100, Tick 100] (washer_wash, 0))) = SPIN \<and>
   state (fst (run [Tick 100, Tick 100, Tick 100] (washer_wash, 0))) = IDLE \<and>
   outputs_after (update_events 100 (run [Tick 100, Tick 100] (washer_wash, 0))) all_reset
     MOTOR_FORWARD_PIN = GPIO_PIN_SET \<and>
   outputs_after (update_events 100 (run [Tick 100, Tick 100] (washer_wash, 0))) all_set
     MOTOR_REVERSE_PIN = GPIO_PIN_RESET"
proof -
  have f: "state washer_wash = WASH"
    by (simp add: washer_wash_def)
  show ?thesis
    using f
      C5_wash_rinse_spin_idle [OF f, of 100 0 100 100 all_reset]
      C5_wash_rinse_spin_idle [OF f, of 100 0 100 100 all_set]
    by simp
qed

text \<open>
  Read literally, claim C6 asks that an update which changes the state notifies the new
  state and resets the phase start to the tick it read. The update of \<^verbatim>\<open>src/washer.c\<close>
  from Wash at tick 5000 moves to Rinse, yet the only notification it makes carries Wash,
  and neither \<^verbatim>\<open>lastTime\<close> nor the \<^verbatim>\<open>timer\<close> field becomes 5000.
\<close>

theorem C6_counterexample:
  "state (fst (Washer_Update washer_wash 0 5000)) \<noteq> state washer_wash \<and>
   (state (fst (Washer_Update washer_wash 0 5000)),
    programIndex (fst (Washer_Update washer_wash 0 5000)))
     \<notin> set (notifications (snd (snd (Washer_Update washer_wash 0 5000)))) \<and>
   fst (snd (Washer_Update washer_wash 0 5000)) \<noteq> 5000 \<and>
   timer (fst (Washer_Update washer_wash 0 5000)) \<noteq> 5000"
  by (simp add: washer_wash_def Washer_Update_def WasherState_defs)

text \<open>
  Claim C6, amended. Whenever an update changes the state, the status notifications of
  that call are exactly one, carrying the state that is being left and the program
  index, when the state left is an enumerator, and none when it is not (the move to
  Error). In \<^verbatim>\<open>src/washer.c\<close> the tick reference \<^verbatim>\<open>lastTime\<close> becomes the tick read
  when FillWater is left and is kept by the other transitions. Neither controller writes
  the \<^verbatim>\<open>timer\<close> field.
\<close>

theorem C6_transition_notifies_state_left:
  "(state (fst (Washer_Update w lt now)) \<noteq> state w \<longrightarrow>
      notifications (snd (snd (Washer_Update w lt now))) =
        (if recognised (state w) then [(state w, programIndex w)] else []) \<and>
      fst (snd (Washer_Update w lt now)) = (if state w = FILL_WATER then now else lt) \<and>
      timer (fst (Washer_Update w lt now)) = timer w) \<and>
   (state (fst (Washer_Update_temp w t)) \<noteq> state w \<longrightarrow>
      notifications (snd (Washer_Update_temp w t)) = [(state w, programIndex w)] \<and>
      timer (fst (Washer_Update_temp w t)) = timer w)"
proof (intro conjI impI)
  assume "state (fst (Washer_Update w lt now)) \<noteq> state w"
  then show "notifications (snd (snd (Washer_Update w lt now))) =
      (if recognised (state w) then [(state w, programIndex w)] else [])"
    by (simp add: Washer_Update_def recognised_def WasherState_defs split: if_splits)
next
  assume "state (fst (Washer_Update w lt now)) \<noteq> state w"
  then show "fst (snd (Washer_Update w lt now)) = (if state w = FILL_WATER then now else lt)"
    by (simp add: Washer_Update_def WasherState_defs split: if_splits)
next
  show "timer (fst (Washer_Update w lt now)) = timer w"
    by (simp add: Washer_Update_def)
next
  assume "state (fst (Washer_Update_temp w t)) \<noteq> state w"
  then show "notifications (snd (Washer_Update_temp w t)) = [(state w, programIndex w)]"
    by (simp add: Washer_Update_temp_def WasherState_defs split: if_splits)
next
  show "timer (fst (Washer_Update_temp w t)) = timer w"
    by (simp add: Washer_Update_temp_def)
qed

theorem C6_transition_notifies_state_left_witness:
  "state (fst (Washer_Update washer_fill 0 10000)) \<noteq> state washer_fill \<and>
   notifications (snd (snd (Washer_Update washer_fill 0 10000))) = [(FILL_WATER, 5)] \<and>
   fst (snd (Washer_Update washer_fill 0 10000)) = 10000 \<and>
   timer (fst (Washer_Update washer_fill 0 10000)) = 0 \<and>
   state (fst (Washer_Update_temp washer_fill 30)) \<noteq> state washer_fill \<and>
   notifications (snd (Washer_Update_temp washer_fill 30)) = [(FILL_WATER, 5)] \<and>
   timer (fst (Washer_Update_temp washer_fill 30)) = 0"
proof -
  have a: "state (fst (Washer_Update washer_fill 0 10000)) \<noteq> state washer_fill"
    by (simp add: washer_fill_def Washer_Update_def WasherState_defs)
  have b: "state (fst (Washer_Update_temp washer_fill 30)) \<noteq> state washer_fill"
    by (simp add: washer_fill_def Washer_Update_temp_def WasherState_defs)
  have c: "state washer_fill = FILL_WATER" "programIndex washer_fill = 5"
    "timer washer_fill = 0"
    by (simp_all add: washer_fill_def)
  show ?thesis
    using a b C6_transition_notifies_state_left [of washer_fill 0 10000 30]
    by (simp add: c recognised_def)
qed

text \<open>
  Read literally, claim C7 asks that the single update which finds a state value that is
  no enumerator leaves all outputs commanded off. In \<^verbatim>\<open>src/washer.c\<close> that update only
  stores Error: it makes no call at all, and lines that were high are still high after it.
\<close>

theorem C7_counterexample:
  "\<not> recognised (state washer_corrupt) \<and>
   state (fst (Washer_Update washer_corrupt 0 0)) = ERROR \<and>
   snd (snd (Washer_Update washer_corrupt 0 0)) = [] \<and>
   \<not> all_off (outputs_after (snd (snd (Washer_Update washer_corrupt 0 0))) all_set)"
  by (simp add: washer_corrupt_def Washer_Update_def WasherState_defs recognised_def
      all_off_def outputs_after_def all_set_def)

text \<open>
  Claim C7, amended. If an update finds a state value that is no enumerator, then after
  that call the state is Error and the call has commanded nothing; the next update,
  whenever it comes, finds Error, leaves all four outputs off and stays in Error. In
  Error an update notifies the status, leaves all four outputs off and keeps the state;
  of the buttons, Stop alone leaves Error, for Idle.
\<close>

theorem C7_error_parks_then_safes:
  "(\<not> recognised (state w) \<longrightarrow>
      state (fst (Washer_Update w lt now)) = ERROR \<and>
      snd (snd (Washer_Update w lt now)) = [] \<and>
      state (fst (run [Tick now, Tick now2] (w, lt))) = ERROR \<and>
      all_off (outputs_after (update_events now2 (run [Tick now] (w, lt))) out)) \<and>
   (state w = ERROR \<longrightarrow>
      state (fst (Washer_Update w lt now)) = ERROR \<and>
      notifications (snd (snd (Washer_Update w lt now))) = [(ERROR, programIndex w)] \<and>
      all_off (outputs_after (snd (snd (Washer_Update w lt now))) out) \<and>
      state (fst (Washer_HandleButtonPress w b)) = (if b = BUTTON_STOP then IDLE else ERROR))"
proof (intro conjI impI)
  assume u: "\<not> recognised (state w)"
  then have first: "Washer_Update w lt now = (w\<lparr>state := ERROR\<rparr>, lt, [])"
    by (simp add: Washer_Update_def recognised_def)
  show "state (fst (Washer_Update w lt now)) = ERROR"
    and "snd (snd (Washer_Update w lt now)) = []"
    by (simp_all add: first)
  have second: "Washer_Update (w\<lparr>state := ERROR\<rparr>) lt now2 =
      (w\<lparr>state := ERROR\<rparr>, lt,
       [Display_UpdateWasherState ERROR (programIndex w),
        HAL_GPIO_WritePin [MOTOR_FORWARD_PIN, MOTOR_REVERSE_PIN] GPIO_PIN_RESET,
        HAL_GPIO_WritePin [WATER_HOT_PIN, WATER_COLD_PIN] GPIO_PIN_RESET])"
    by (simp add: Washer_Update_def WasherState_defs)
  show "state (fst (run [Tick now, Tick now2] (w, lt))) = ERROR"
    by (simp add: run_def first second)
  show "all_off (outputs_after (update_events now2 (run [Tick now] (w, lt))) out)"
    by (simp add: run_def update_events_def first second all_off_def outputs_after_def)
next
  assume e: "state w = ERROR"
  then have upd: "Washer_Update w lt now =
      (w, lt,
       [Display_UpdateWasherState ERROR (programIndex w),
        HAL_GPIO_WritePin [MOTOR_FORWARD_PIN, MOTOR_REVERSE_PIN] GPIO_PIN_RESET,
        HAL_GPIO_WritePin [WATER_HOT_PIN, WATER_COLD_PIN] GPIO_PIN_RESET])"
    by (simp add: Washer_Update_def WasherState_defs)
  show "state (fst (Washer_Update w lt now)) = ERROR"
    by (simp add: upd e)
  show "notifications (snd (snd (Washer_Update w lt now))) = [(ERROR, programIndex w)]"
    by (simp add: upd)
  show "all_off (outputs_after (snd (snd (Washer_Update w lt now))) out)"
    by (simp add: upd all_off_def outputs_after_def)
  show "state (fst (Washer_HandleButtonPress w b)) = (if b = BUTTON_STOP then IDLE else ERROR)"
    using e by (simp add: Washer_HandleButtonPress_def WasherState_defs)
qed

theorem C7_error_parks_then_safes_witness:
  "\<not> recognised (state washer_corrupt) \<and>
   state (fst (Washer_Update washer_corrupt 0 100)) = ERROR \<and>
   snd (snd (Washer_Update washer_corrupt 0 100)) = [] \<and>
   state (fst (run [Tick 100, Tick 200] (washer_corrupt, 0))) = ERROR \<and>
   all_off (outputs_after (update_events 200 (run [Tick 100] (washer_corrupt, 0))) all_set) \<and>
   state washer_error = ERROR \<and>
   state (fst (Washer_Update washer_error 0 100)) = ERROR \<and>
   all_off (outputs_after (snd (snd (Washer_Update washer_error 0 100))) all_set) \<and>
   state (fst (Washer_HandleButtonPress washer_error BUTTON_STOP)) = IDLE \<and>
   state (fst (Washer_HandleButtonPress washer_error BUTTON_START)) = ERROR"
proof -
  have a: "\<not> recognised (state washer_corrupt)"
    by (simp add: washer_corrupt_def recognised_def WasherState_defs)
  have b: "state washer_error = ERROR"
    by (simp add: washer_error_def)
  show ?thesis
    using a b
      C7_error_parks_then_safes [of washer_corrupt 0 100 200 all_set BUTTON_STOP]
      C7_error_parks_then_safes [of washer_error 0 100 200 all_set BUTTON_STOP]
      C7_error_parks_then_safes [of washer_error 0 100 200 all_set BUTTON_START]
    by simp
qed

text \<open>
  Read literally, claim C8 asks that updates which all read the same tick leave the state
  alone, so that the state after any number of them is the state after one. From Wash,
  with the tick held at 0, one update of \<^verbatim>\<open>src/washer.c\<close> gives Rinse and two give Spin.
\<close>

theorem C8_counterexample:
  "state (fst (repeat_update (Suc 0) 0 (washer_wash, 0))) \<noteq> state washer_wash \<and>
   state (fst (repeat_update (Suc (Suc 0)) 0 (washer_wash, 0))) \<noteq>
     state (fst (repeat_update (Suc 0) 0 (washer_wash, 0)))"
  by (simp add: washer_wash_def Washer_Update_def WasherState_defs)

text \<open>
  Claim C8, amended. Updates that all read the same tick do not change the state field
  when they start in Idle, in Error, or in FillWater with fewer than 10000 ticks since
  \<^verbatim>\<open>lastTime\<close>: the state after \<open>n\<close> of them is the state they started in. Started in
  Spin, the state after one of them is Idle and so is the state after any \<open>n \<ge> 1\<close> of
  them; started on a value that is no enumerator, the state after one is Error and so is
  the state after any \<open>n \<ge> 1\<close>. Wash, Rinse and a FillWater whose gate is open do not
  wait for the tick: one update takes them to Rinse, to Spin and to Wash.
\<close>

theorem C8_same_tick_updates_settle:
  "(state w = IDLE \<or> state w = ERROR \<or> (state w = FILL_WATER \<and> now - lt < 10000) \<longrightarrow>
      state (fst (repeat_update n now (w, lt))) = state w) \<and>
   (state w = SPIN \<and> 0 < n \<longrightarrow>
      state (fst (repeat_update (Suc 0) now (w, lt))) = IDLE \<and>
      state (fst (repeat_update n now (w, lt))) = IDLE) \<and>
   (\<not> recognised (state w) \<and> 0 < n \<longrightarrow>
      state (fst (repeat_update (Suc 0) now (w, lt))) = ERROR \<and>
      state (fst (repeat_update n now (w, lt))) = ERROR) \<and>
   (state w = WASH \<longrightarrow> state (fst (repeat_update (Suc 0) now (w, lt))) = RINSE) \<and>
   (state w = RINSE \<longrightarrow> state (fst (repeat_update (Suc 0) now (w, lt))) = SPIN) \<and>
   (state w = FILL_WATER \<and> 10000 \<le> now - lt \<longrightarrow>
      state (fst (repeat_update (Suc 0) now (w, lt))) = WASH)"
proof -
  have one: "state (fst (repeat_update (Suc 0) now (w, lt))) =
      state (fst (Washer_Update w lt now))"
    by simp
  have resting: "state (fst (repeat_update n now (w, lt))) = state w"
    if "state w = IDLE \<or> state w = ERROR \<or> (state w = FILL_WATER \<and> now - lt < 10000)"
    using that by (simp add: repeat_update_resting)
  have settles: "state (fst (repeat_update n now (w, lt))) =
      state (fst (Washer_Update w lt now))"
    if "state w = SPIN \<or> \<not> recognised (state w)" and "0 < n"
  proof -
    from \<open>0 < n\<close> obtain m where "n = Suc m"
      by (cases n) auto
    then show ?thesis
      using repeat_update_Suc_settles [OF that(1), of m now lt] by simp
  qed
  have spin: "state (fst (Washer_Update w lt now)) = IDLE" if "state w = SPIN"
    using that by (simp add: state_after_update WasherState_defs)
  have unknown: "state (fst (Washer_Update w lt now)) = ERROR" if "\<not> recognised (state w)"
    using that by (simp add: state_after_update recognised_def)
  have wash: "state (fst (Washer_Update w lt now)) = RINSE" if "state w = WASH"
    using that by (simp add: state_after_update WasherState_defs)
  have rinse: "state (fst (Washer_Update w lt now)) = SPIN" if "state w = RINSE"
    using that by (simp add: state_after_update WasherState_defs)
  have fill: "state (fst (Washer_Update w lt now)) = WASH"
    if "state w = FILL_WATER \<and> 10000 \<le> now - lt"
    using that by (simp add: state_after_update WasherState_defs)
  show ?thesis
    using resting settles spin unknown wash rinse fill unfolding one by metis
qed

theorem C8_same_tick_updates_settle_witness:
  "state washer_fill = FILL_WATER \<and> (9999 :: 32 word) - 0 < 10000 \<and>
   state (fst (repeat_update (Suc (Suc (Suc 0))) 9999 (washer_fill, 0))) = state washer_fill \<and>
   state washer_spin = SPIN \<and>
   state (fst (repeat_update (Suc 0) 9999 (washer_spin, 0))) = IDLE \<and>
   state (fst (repeat_update (Suc (Suc (Suc 0))) 9999 (washer_spin, 0))) = IDLE \<and>
   \<not> recognised (state washer_corrupt) \<and>
   state (fst (repeat_update (Suc 0) 9999 (washer_corrupt, 0))) = ERROR \<and>
   state (fst (repeat_update (Suc (Suc (Suc 0))) 9999 (washer_corrupt, 0))) = ERROR \<and>
   state washer_wash = WASH \<and>
   state (fst (repeat_update (Suc 0) 9999 (washer_wash, 0))) = RINSE \<and>
   (10000 :: 32 word) \<le> 10000 - 0 \<and>
   state (fst (repeat_update (Suc 0) 10000 (washer_fill, 0))) = WASH"
proof -
  have a: "state washer_fill = FILL_WATER" "(9999 :: 32 word) - 0 < 10000"
    "(10000 :: 32 word) \<le> 10000 - 0"
    by (simp_all add: washer_fill_def)
  have b: "state washer_spin = SPIN"
    by (simp add: washer_spin_def)
  have c: "\<not> recognised (state washer_corrupt)"
    by (simp add: washer_corrupt_def recognised_def WasherState_defs)
  have d: "state washer_wash = WASH"
    by (simp add: washer_wash_def)
  have e: "(0 :: nat) < Suc (Suc (Suc 0))"
    by simp
  show ?thesis
    using a b c d e
      C8_same_tick_updates_settle [of washer_fill 9999 0 "Suc (Suc (Suc 0))"]
      C8_same_tick_updates_settle [of washer_spin 9999 0 "Suc (Suc (Suc 0))"]
      C8_same_tick_updates_settle [of washer_corrupt 9999 0 "Suc (Suc (Suc 0))"]
      C8_same_tick_updates_settle [of washer_wash 9999 0 "Suc (Suc (Suc 0))"]
      C8_same_tick_updates_settle [of washer_fill 10000 0 "Suc (Suc (Suc 0))"]
    by (simp del: repeat_update.simps)
qed



text \<open>
  Claim C10. An Up press in Idle with the program index already 29, and a Down press in
  Idle with the index already 0, leave every field of the structure unchanged and make
  no program-display notification. (\<^verbatim>\<open>src/washer.c\<close> then makes no call at all; the
  controller that reads the temperature refreshes the clock display and nothing else.)
\<close>

theorem C10_clamped_press_is_silent:
  assumes "state w = IDLE"
    and "(b = BUTTON_UP \<and> programIndex w = 29) \<or> (b = BUTTON_DOWN \<and> programIndex w = 0)"
  shows "Washer_HandleButtonPress w b = (w, []) \<and>
         Washer_HandleButtonPress_temp w b = (w, [Display_UpdateTime]) \<and>
         program_notifications (snd (Washer_HandleButtonPress w b)) = [] \<and>
         program_notifications (snd (Washer_HandleButtonPress_temp w b)) = []"
  using assms(2)
proof
  assume "b = BUTTON_UP \<and> programIndex w = 29"
  with assms(1) show ?thesis
    by (simp add: Washer_HandleButtonPress_def Washer_HandleButtonPress_temp_def)
next
  assume "b = BUTTON_DOWN \<and> programIndex w = 0"
  with assms(1) show ?thesis
    by (simp add: Washer_HandleButtonPress_def Washer_HandleButtonPress_temp_def)
qed

theorem C10_clamped_press_is_silent_witness:
  "state washer_idle_top = IDLE \<and> programIndex washer_idle_top = 29 \<and>
   Washer_HandleButtonPress washer_idle_top BUTTON_UP = (washer_idle_top, []) \<and>
   Washer_HandleButtonPress_temp washer_idle_top BUTTON_UP =
     (washer_idle_top, [Display_UpdateTime]) \<and>
   program_notifications (snd (Washer_HandleButtonPress washer_idle_top BUTTON_UP)) = [] \<and>
   program_notifications (snd (Washer_HandleButtonPress_temp washer_idle_top BUTTON_UP)) = [] \<and>
   state washer_global = IDLE \<and> programIndex washer_global = 0 \<and>
   Washer_HandleButtonPress washer_global BUTTON_DOWN = (washer_global, []) \<and>
   Washer_HandleButtonPress_temp washer_global BUTTON_DOWN =
     (washer_global, [Display_UpdateTime]) \<and>
   program_notifications (snd (Washer_HandleButtonPress washer_global BUTTON_DOWN)) = [] \<and>
   program_notifications (snd (Washer_HandleButtonPress_temp washer_global BUTTON_DOWN)) = []"
proof -
  have a: "state washer_idle_top = IDLE" "programIndex washer_idle_top = 29"
    by (simp_all add: washer_idle_top_def)
  have b: "state washer_global = IDLE" "programIndex washer_global = 0"
    by (simp_all add: washer_global_def)
  show ?thesis
    using a b
      C10_clamped_press_is_silent [of washer_idle_top BUTTON_UP]
      C10_clamped_press_is_silent [of washer_global BUTTON_DOWN]
    by simp
qed

end
